theory Spec2Isabelle
  imports Complex_Main
begin

section \<open>Goal tracker: the data model of \<open>project.py\<close>\<close>

text \<open>
  The core of the repository is the class \<open>GoalTracker\<close> of \<open>project.py\<close>: a JSON
  document with the two collections \<open>active_goals\<close> and \<open>completed_goals\<close>, held in
  memory as \<open>self.data\<close> and written back to \<open>self.file_path\<close> after every mutation.

  Conventions of the embedding.
  \<^item> A JSON object with a fixed set of keys is a record. A key the code treats as
    possibly absent (\<open>setdefault\<close>, \<open>in\<close>) is an \<open>option\<close> field, \<open>None\<close> meaning
    that the key is absent; reading an absent key with \<open>d[k]\<close> raises \<open>KeyError\<close>.
    The keys \<open>name\<close>, \<open>total_target\<close> and \<open>weekly_target\<close>, which \<open>add_goal\<close> always
    writes and \<open>load_data\<close> never fills in, are taken as present, and every value has
    the type the operations write; keys the code never touches are left out.
  \<^item> Python floats are modelled as \<open>real\<close>: rounding, infinities and NaN are outside
    the model. \<open>float(x)\<close> of a number is the identity.
  \<^item> The system clock is an explicit argument \<open>now\<close>, the calendar date that
    \<open>datetime.now()\<close> reports; a call that reads the clock twice gets the same date.
  \<^item> A method of the class is a function from the tracker before the call to the
    outcome (a raised exception or the returned value) and the tracker after it.
  \<^item> A goal object reached through the list \<open>active_goals\<close> is named by its position
    in that list; mutating the object is updating the list at that position.
\<close>

subsection \<open>Goals and the store\<close>

record dated =
  date :: string

record log_entry = dated +
  progress :: real

record missed_entry = dated +
  reason :: string

record goal =
  name :: string
  total_target :: real
  weekly_target :: real
  unit :: "string option"
  daily_logs :: "log_entry list option"
  missed_days :: "missed_entry list option"
  completion_date :: "string option"

text \<open>The decoded JSON document: each of the three top-level keys may be absent.\<close>

record document =
  goals_key :: "goal list option"
  active_goals_key :: "goal list option"
  completed_goals_key :: "goal list option"

text \<open>
  \<open>self.data\<close> as \<open>load_data\<close> returns it: \<open>active_goals\<close> and \<open>completed_goals\<close> are
  always present, a legacy \<open>goals\<close> key may have stayed.
\<close>

record store =
  goals :: "goal list option"
  active_goals :: "goal list"
  completed_goals :: "goal list"

text \<open>
  The file at \<open>file_path\<close>: absent (\<open>FileNotFoundError\<close>), not decodable
  (\<open>json.JSONDecodeError\<close>), or holding a document.
\<close>

datatype file_state = Missing | Malformed | Document document

record tracker =
  data :: store
  disk :: file_state
  writes :: nat

datatype error = KeyError | ValueError

subsection \<open>The calendar functions of Python's \<open>datetime\<close>\<close>

text \<open>
  The repository calls \<open>strftime("%Y-%m-%d")\<close>, \<open>strptime(s, "%Y-%m-%d")\<close> and
  \<open>isocalendar()[1]\<close> of the standard library. They are transcribed here from the
  library's reference implementation (\<open>datetime.py\<close>, \<open>_strptime.py\<close>), with its
  function names.
\<close>

record ymd =
  year :: nat
  month :: nat
  day :: nat

definition is_leap :: "nat \<Rightarrow> bool" where
  "is_leap y = (y mod 4 = 0 \<and> (y mod 100 \<noteq> 0 \<or> y mod 400 = 0))"

definition days_before_year :: "nat \<Rightarrow> int" where
  "days_before_year yr =
     (let y = int yr - 1 in y * 365 + y div 4 - y div 100 + y div 400)"

definition DAYS_IN_MONTH :: "nat list" where
  "DAYS_IN_MONTH = [0, 31, 28, 31, 30, 31, 30, 31, 31, 30, 31, 30, 31]"

definition DAYS_BEFORE_MONTH :: "nat list" where
  "DAYS_BEFORE_MONTH = [0, 0, 31, 59, 90, 120, 151, 181, 212, 243, 273, 304, 334]"

definition days_in_month :: "nat \<Rightarrow> nat \<Rightarrow> nat" where
  "days_in_month y m = (if m = 2 \<and> is_leap y then 29 else DAYS_IN_MONTH ! m)"

definition days_before_month :: "nat \<Rightarrow> nat \<Rightarrow> nat" where
  "days_before_month y m =
     DAYS_BEFORE_MONTH ! m + (if 2 < m \<and> is_leap y then 1 else 0)"

text \<open>A date the library accepts: \<open>MINYEAR = 1\<close>, \<open>MAXYEAR = 9999\<close>.\<close>

definition valid_date :: "ymd \<Rightarrow> bool" where
  "valid_date d =
     (1 \<le> year d \<and> year d \<le> 9999 \<and> 1 \<le> month d \<and> month d \<le> 12 \<and>
      1 \<le> day d \<and> day d \<le> days_in_month (year d) (month d))"

definition ymd2ord :: "nat \<Rightarrow> nat \<Rightarrow> nat \<Rightarrow> int" where
  "ymd2ord y m d = days_before_year y + int (days_before_month y m) + int d"

definition isoweek1monday :: "nat \<Rightarrow> int" where
  "isoweek1monday y =
     (let firstday = ymd2ord y 1 1;
          firstweekday = (firstday + 6) mod 7;
          week1monday = firstday - firstweekday
      in if firstweekday > 3 then week1monday + 7 else week1monday)"

text \<open>\<open>isocalendar\<close> returns the ISO year, the week number and the weekday.\<close>

definition isocalendar :: "ymd \<Rightarrow> int \<times> int \<times> int" where
  "isocalendar d =
     (let y = year d;
          week1monday = isoweek1monday y;
          today = ymd2ord y (month d) (day d);
          week = (today - week1monday) div 7;
          wday = (today - week1monday) mod 7
      in if week < 0 then
           (let week1monday' = isoweek1monday (y - 1)
            in (int y - 1, (today - week1monday') div 7 + 1,
                (today - week1monday') mod 7 + 1))
         else if week \<ge> 52 \<and> today \<ge> isoweek1monday (y + 1) then
           (int y + 1, 1, wday + 1)
         else (int y, week + 1, wday + 1))"

definition iso_week :: "ymd \<Rightarrow> int" where
  "iso_week d = fst (snd (isocalendar d))"

text \<open>\<open>strftime("%Y-%m-%d")\<close>: four, two and two decimal digits, zero padded.\<close>

definition digit_char :: "nat \<Rightarrow> char" where
  "digit_char n = ''0123456789'' ! (n mod 10)"

definition strftime :: "ymd \<Rightarrow> string" where
  "strftime d =
     [digit_char (year d div 1000), digit_char (year d div 100),
      digit_char (year d div 10), digit_char (year d), CHR ''-'',
      digit_char (month d div 10), digit_char (month d), CHR ''-'',
      digit_char (day d div 10), digit_char (day d)]"

text \<open>
  \<open>strptime(s, "%Y-%m-%d")\<close>: the directives match \<open>\d\d\d\d\<close>,
  \<open>1[0-2]|0[1-9]|[1-9]\<close> and \<open>3[0-1]|[1-2]\d|0[1-9]|[1-9]| [1-9]\<close>; the whole string
  must be consumed and the date must exist. \<open>None\<close> stands for the \<open>ValueError\<close>.
\<close>

definition in_range :: "char \<Rightarrow> char \<Rightarrow> char \<Rightarrow> bool" where
  "in_range lo hi c = ((of_char lo :: nat) \<le> of_char c \<and> (of_char c :: nat) \<le> of_char hi)"

definition is_digit :: "char \<Rightarrow> bool" where
  "is_digit c = in_range (CHR ''0'') (CHR ''9'') c"

definition digit_val :: "char \<Rightarrow> nat" where
  "digit_val c = of_char c - 48"

fun parse_year :: "string \<Rightarrow> nat option" where
  "parse_year [a, b, c, d] =
     (if is_digit a \<and> is_digit b \<and> is_digit c \<and> is_digit d
      then Some (digit_val a * 1000 + digit_val b * 100 + digit_val c * 10 + digit_val d)
      else None)"
| "parse_year _ = None"

fun parse_month :: "string \<Rightarrow> nat option" where
  "parse_month [a, b] =
     (if a = CHR ''1'' \<and> in_range (CHR ''0'') (CHR ''2'') b then Some (10 + digit_val b)
      else if a = CHR ''0'' \<and> in_range (CHR ''1'') (CHR ''9'') b then Some (digit_val b)
      else None)"
| "parse_month [a] = (if in_range (CHR ''1'') (CHR ''9'') a then Some (digit_val a) else None)"
| "parse_month _ = None"

fun parse_day :: "string \<Rightarrow> nat option" where
  "parse_day [a, b] =
     (if a = CHR ''3'' \<and> in_range (CHR ''0'') (CHR ''1'') b then Some (30 + digit_val b)
      else if in_range (CHR ''1'') (CHR ''2'') a \<and> is_digit b
        then Some (digit_val a * 10 + digit_val b)
      else if (a = CHR ''0'' \<or> a = CHR '' '') \<and> in_range (CHR ''1'') (CHR ''9'') b
        then Some (digit_val b)
      else None)"
| "parse_day [a] = (if in_range (CHR ''1'') (CHR ''9'') a then Some (digit_val a) else None)"
| "parse_day _ = None"

definition strptime :: "string \<Rightarrow> ymd option" where
  "strptime s =
     (let ys = take 4 s; rest = drop 4 s in
      case rest of
        [] \<Rightarrow> None
      | c # ms_ds \<Rightarrow>
          if c \<noteq> CHR ''-'' then None
          else
            (let ms = takeWhile (\<lambda>x. x \<noteq> CHR ''-'') ms_ds;
                 ds = drop (Suc (length ms)) ms_ds
             in if length ms = length ms_ds then None
                else
                  (case (parse_year ys, parse_month ms, parse_day ds) of
                     (Some y, Some m, Some d) \<Rightarrow>
                       (let r = \<lparr>year = y, month = m, day = d\<rparr>
                        in if valid_date r then Some r else None)
                   | _ \<Rightarrow> None)))"

section \<open>The operations of \<open>GoalTracker\<close>\<close>

subsection \<open>Loading and saving\<close>

text \<open>\<open>d.setdefault(k, v)\<close> on the value found under the key \<open>k\<close>.\<close>

definition setdefault :: "'a option \<Rightarrow> 'a \<Rightarrow> 'a option" where
  "setdefault v d = (case v of None \<Rightarrow> Some d | Some x \<Rightarrow> Some x)"

text \<open>The body of the loop of \<open>load_data\<close> over the active goals.\<close>

definition ensure_fields :: "goal \<Rightarrow> goal" where
  "ensure_fields g =
     g\<lparr>unit := setdefault (unit g) ''units'',
       missed_days := setdefault (missed_days g) [],
       daily_logs := setdefault (daily_logs g) []\<rparr>"

definition empty_store :: store where
  "empty_store = \<lparr>goals = None, active_goals = [], completed_goals = []\<rparr>"

definition load_data :: "file_state \<Rightarrow> store" where
  "load_data f =
     (case f of
        Missing \<Rightarrow> empty_store
      | Malformed \<Rightarrow> empty_store
      | Document d \<Rightarrow>
          (let d1 = (if goals_key d \<noteq> None \<and> active_goals_key d = None
                     then d\<lparr>active_goals_key := goals_key d, goals_key := None\<rparr>
                     else d);
               d2 = d1\<lparr>active_goals_key := setdefault (active_goals_key d1) []\<rparr>;
               d3 = d2\<lparr>completed_goals_key := setdefault (completed_goals_key d2) []\<rparr>
           in \<lparr>goals = goals_key d3,
               active_goals =
                 map ensure_fields (case active_goals_key d3 of None \<Rightarrow> [] | Some gs \<Rightarrow> gs),
               completed_goals =
                 (case completed_goals_key d3 of None \<Rightarrow> [] | Some gs \<Rightarrow> gs)\<rparr>))"

text \<open>\<open>json.dump(self.data, f)\<close>: every key of \<open>self.data\<close> is written.\<close>

definition dump :: "store \<Rightarrow> document" where
  "dump s =
     \<lparr>goals_key = goals s,
      active_goals_key = Some (active_goals s),
      completed_goals_key = Some (completed_goals s)\<rparr>"

definition save_data :: "tracker \<Rightarrow> tracker" where
  "save_data t = t\<lparr>disk := Document (dump (data t)), writes := Suc (writes t)\<rparr>"

text \<open>\<open>GoalTracker.__init__\<close> on a file in the given state.\<close>

definition GoalTracker :: "file_state \<Rightarrow> tracker" where
  "GoalTracker f = \<lparr>data = load_data f, disk = f, writes = 0\<rparr>"

subsection \<open>Adding, deleting, completing\<close>

definition add_goal ::
  "string \<Rightarrow> real \<Rightarrow> real \<Rightarrow> string \<Rightarrow> tracker \<Rightarrow> (error + unit) \<times> tracker" where
  "add_goal nm total_tgt weekly_tgt u t =
     (Inr (),
      save_data
        (t\<lparr>data := (data t)\<lparr>active_goals := active_goals (data t) @
          [\<lparr>name = nm, total_target = total_tgt, weekly_target = weekly_tgt, unit = Some u,
            daily_logs = Some [], missed_days = None, completion_date = None\<rparr>]\<rparr>\<rparr>))"

definition delete_goal :: "string \<Rightarrow> tracker \<Rightarrow> (error + unit) \<times> tracker" where
  "delete_goal goal_name t =
     (Inr (),
      save_data
        (t\<lparr>data := (data t)\<lparr>active_goals :=
          filter (\<lambda>g. name g \<noteq> goal_name) (active_goals (data t))\<rparr>\<rparr>))"

text \<open>
  \<open>complete_goal(goal)\<close>, the goal being the object at position \<open>i\<close> of
  \<open>active_goals\<close>: the stamp is visible through the list, and \<open>list.remove\<close> takes
  out the first element equal to the stamped goal.
\<close>

definition complete_goal :: "ymd \<Rightarrow> nat \<Rightarrow> tracker \<Rightarrow> tracker" where
  "complete_goal now i t =
     (let s = data t;
          g = (active_goals s ! i)\<lparr>completion_date := Some (strftime now)\<rparr>;
          stamped = (active_goals s)[i := g]
      in save_data
           (t\<lparr>data := s\<lparr>completed_goals := completed_goals s @ [g],
                          active_goals := remove1 g stamped\<rparr>\<rparr>))"

subsection \<open>Logging\<close>

text \<open>The position of the first goal with the given name, the one the loops stop at.\<close>

fun find_goal :: "string \<Rightarrow> goal list \<Rightarrow> nat option" where
  "find_goal goal_name [] = None"
| "find_goal goal_name (g # gs) =
     (if name g = goal_name then Some 0 else map_option Suc (find_goal goal_name gs))"

text \<open>Python's \<open>sum\<close>: left to right, from \<open>0\<close>.\<close>

definition py_sum :: "real list \<Rightarrow> real" where
  "py_sum xs = foldl (+) 0 xs"

definition log_progress ::
  "ymd \<Rightarrow> string \<Rightarrow> real \<Rightarrow> tracker \<Rightarrow> (error + bool) \<times> tracker" where
  "log_progress now goal_name amount t =
     (let today = strftime now in
      case find_goal goal_name (active_goals (data t)) of
        None \<Rightarrow> (Inr False, t)
      | Some i \<Rightarrow>
          (let goal = active_goals (data t) ! i in
           case daily_logs goal of
             None \<Rightarrow> (Inl KeyError, t)
           | Some logs \<Rightarrow>
               (let logs' = logs @ [\<lparr>date = today, progress = amount\<rparr>];
                    goal' = goal\<lparr>daily_logs := Some logs'\<rparr>;
                    t1 = t\<lparr>data := (data t)\<lparr>active_goals :=
                           (active_goals (data t))[i := goal']\<rparr>\<rparr>;
                    total_progress = py_sum (map progress logs');
                    t2 = (if total_progress \<ge> total_target goal'
                          then complete_goal now i t1 else t1)
                in (Inr True, save_data t2))))"

definition log_missed_day ::
  "ymd \<Rightarrow> string \<Rightarrow> string \<Rightarrow> tracker \<Rightarrow> (error + bool) \<times> tracker" where
  "log_missed_day now goal_name why t =
     (let today = strftime now in
      case find_goal goal_name (active_goals (data t)) of
        None \<Rightarrow> (Inr False, t)
      | Some i \<Rightarrow>
          (let goal = active_goals (data t) ! i in
           case missed_days goal of
             None \<Rightarrow> (Inl KeyError, t)
           | Some ms \<Rightarrow>
               (let goal' = goal\<lparr>missed_days := Some (ms @ [\<lparr>date = today, reason = why\<rparr>])\<rparr>;
                    t1 = t\<lparr>data := (data t)\<lparr>active_goals :=
                           (active_goals (data t))[i := goal']\<rparr>\<rparr>
                in (Inr True, save_data t1))))"

subsection \<open>The weekly query\<close>

text \<open>
  The generator of \<open>get_weekly_progress\<close>: the entries whose parsed date has the
  week number \<open>w\<close>; \<open>None\<close> when \<open>strptime\<close> raises on some entry.
\<close>

fun logs_in_week :: "int \<Rightarrow> log_entry list \<Rightarrow> log_entry list option" where
  "logs_in_week w [] = Some []"
| "logs_in_week w (l # ls) =
     (case strptime (date l) of
        None \<Rightarrow> None
      | Some d \<Rightarrow>
          (case logs_in_week w ls of
             None \<Rightarrow> None
           | Some r \<Rightarrow> Some (if iso_week d = w then l # r else r)))"

definition get_weekly_progress ::
  "ymd \<Rightarrow> string \<Rightarrow> tracker \<Rightarrow> (error + real) \<times> tracker" where
  "get_weekly_progress now goal_name t =
     (let current_week = iso_week now in
      case find_goal goal_name (active_goals (data t)) of
        None \<Rightarrow> (Inr 0, t)
      | Some i \<Rightarrow>
          (case daily_logs (active_goals (data t) ! i) of
             None \<Rightarrow> (Inl KeyError, t)
           | Some logs \<Rightarrow>
               (case logs_in_week current_week logs of
                  None \<Rightarrow> (Inl ValueError, t)
                | Some ls \<Rightarrow> (Inr (py_sum (map progress ls)), t))))"

section \<open>Reachable states and sample runs\<close>






text \<open>Every active goal carries the three fields \<open>load_data\<close> ensures.\<close>

definition has_fields :: "goal \<Rightarrow> bool" where
  "has_fields g = (unit g \<noteq> None \<and> missed_days g \<noteq> None \<and> daily_logs g \<noteq> None)"

text \<open>Dates used in the sample runs.\<close>

definition wed_2023_03_08 :: ymd where
  "wed_2023_03_08 = \<lparr>year = 2023, month = 3, day = 8\<rparr>"

definition wed_2024_03_06 :: ymd where
  "wed_2024_03_06 = \<lparr>year = 2024, month = 3, day = 6\<rparr>"

definition thu_2024_03_07 :: ymd where
  "thu_2024_03_07 = \<lparr>year = 2024, month = 3, day = 7\<rparr>"

text \<open>A fresh session in which one goal with total target 10 is added.\<close>

definition run10 :: tracker where
  "run10 = snd (add_goal ''run'' 10 5 ''km'' (GoalTracker Missing))"

text \<open>The same session after another goal and a second goal of the same name are added.\<close>

definition twins :: tracker where
  "twins =
     snd (add_goal ''run'' 20 5 ''km'' (snd (add_goal ''read'' 30 5 ''pages'' run10)))"

text \<open>A later session started from the file the twins session left.\<close>

definition twins_reloaded :: tracker where
  "twins_reloaded = GoalTracker (disk twins)"


text \<open>A goal logged on the Wednesday of week 10 of 2023 and of week 10 of 2024.\<close>

definition two_years :: tracker where
  "two_years =
     snd (log_progress wed_2024_03_06 ''swim'' 2
       (snd (log_progress wed_2023_03_08 ''swim'' 3
         (snd (add_goal ''swim'' 100 5 ''km'' (GoalTracker Missing))))))"


text \<open>A session with one active goal and one completed goal.\<close>

definition one_done :: tracker where
  "one_done =
     snd (log_progress wed_2024_03_06 ''walk'' 7
       (snd (add_goal ''walk'' 5 5 ''km'' run10)))"

section \<open>Properties\<close>

subsection \<open>The lookup\<close>

lemma find_goal_None_iff: "find_goal n gs = None \<longleftrightarrow> (\<forall>g\<in>set gs. name g \<noteq> n)"
  by (induction gs) auto

lemma find_goal_Some:
  "find_goal n gs = Some i \<Longrightarrow> i < length gs \<and> name (gs ! i) = n \<and> (\<forall>j<i. name (gs ! j) \<noteq> n)"
proof (induction gs arbitrary: i)
  case Nil
  then show ?case by simp
next
  case (Cons g gs)
  show ?case
  proof (cases "name g = n")
    case True
    with Cons.prems show ?thesis by simp
  next
    case False
    with Cons.prems obtain k where k: "find_goal n gs = Some k" "i = Suc k"
      by auto
    from Cons.IH [OF k(1)] False k(2) show ?thesis
      by (auto simp: less_Suc_eq_0_disj)
  qed
qed

lemma find_goal_take: "find_goal n gs = Some i \<Longrightarrow> \<forall>g\<in>set (take i gs). name g \<noteq> n"
  by (auto simp: in_set_conv_nth dest!: find_goal_Some)

lemma remove1_first_named:
  assumes "find_goal n gs = Some i" and "name g = n"
  shows "remove1 g (gs[i := g]) = take i gs @ drop (Suc i) gs"
proof -
  from assms(1) have i: "i < length gs" and pre: "\<forall>x\<in>set (take i gs). name x \<noteq> n"
    using find_goal_Some find_goal_take by blast+
  have "gs[i := g] = take i gs @ g # drop (Suc i) gs"
    using i by (simp add: upd_conv_take_nth_drop)
  moreover have "g \<notin> set (take i gs)"
    using pre assms(2) by blast
  ultimately show ?thesis
    by (simp add: remove1_append)
qed

lemma py_sum_sum_list: "py_sum xs = sum_list xs"
proof -
  have "foldl (+) a xs = a + sum_list xs" for a :: real
    by (induction xs arbitrary: a) (simp_all add: add.assoc)
  then show ?thesis by (simp add: py_sum_def)
qed

subsection \<open>What a log call does to the store\<close>

lemma log_progress_no_match:
  "find_goal n (active_goals (data t)) = None \<Longrightarrow> log_progress now n a t = (Inr False, t)"
  by (simp add: log_progress_def)


lemma log_progress_match:
  assumes f: "find_goal n (active_goals (data t)) = Some i"
    and l: "daily_logs (active_goals (data t) ! i) = Some ls"
  shows "fst (log_progress now n a t) = Inr True"
    and "data (snd (log_progress now n a t)) =
      (let act = active_goals (data t);
           g' = (act ! i)\<lparr>daily_logs := Some (ls @ [\<lparr>date = strftime now, progress = a\<rparr>])\<rparr>
       in if total_target (act ! i) \<le> sum_list (map progress ls) + a
          then (data t)\<lparr>completed_goals :=
                   completed_goals (data t) @ [g'\<lparr>completion_date := Some (strftime now)\<rparr>],
                 active_goals := take i act @ drop (Suc i) act\<rparr>
          else (data t)\<lparr>active_goals := act[i := g']\<rparr>)"
proof -
  from f have i: "i < length (active_goals (data t))" and nm: "name (active_goals (data t) ! i) = n"
    using find_goal_Some by blast+
  show "fst (log_progress now n a t) = Inr True"
    using f l by (simp add: log_progress_def Let_def)
  show "data (snd (log_progress now n a t)) =
      (let act = active_goals (data t);
           g' = (act ! i)\<lparr>daily_logs := Some (ls @ [\<lparr>date = strftime now, progress = a\<rparr>])\<rparr>
       in if total_target (act ! i) \<le> sum_list (map progress ls) + a
          then (data t)\<lparr>completed_goals :=
                   completed_goals (data t) @ [g'\<lparr>completion_date := Some (strftime now)\<rparr>],
                 active_goals := take i act @ drop (Suc i) act\<rparr>
          else (data t)\<lparr>active_goals := act[i := g']\<rparr>)"
    using f l i nm
    by (simp add: log_progress_def complete_goal_def save_data_def Let_def py_sum_sum_list
        remove1_first_named)
qed

lemma log_missed_day_no_match:
  "find_goal n (active_goals (data t)) = None \<Longrightarrow> log_missed_day now n r t = (Inr False, t)"
  by (simp add: log_missed_day_def)

lemma log_missed_day_no_field:
  "find_goal n (active_goals (data t)) = Some i \<Longrightarrow> missed_days (active_goals (data t) ! i) = None
   \<Longrightarrow> log_missed_day now n r t = (Inl KeyError, t)"
  by (simp add: log_missed_day_def)

lemma log_missed_day_match:
  assumes f: "find_goal n (active_goals (data t)) = Some i"
    and l: "missed_days (active_goals (data t) ! i) = Some ms"
  shows "log_missed_day now n r t =
     (Inr True,
      save_data (t\<lparr>data := (data t)\<lparr>active_goals := (active_goals (data t))
        [i := (active_goals (data t) ! i)
           \<lparr>missed_days := Some (ms @ [\<lparr>date = strftime now, reason = r\<rparr>])\<rparr>]\<rparr>\<rparr>))"
  using f l by (simp add: log_missed_day_def Let_def)

lemma get_weekly_progress_frame: "snd (get_weekly_progress now n t) = t"
  by (simp add: get_weekly_progress_def Let_def split: option.splits)

lemma find_goal_first:
  "i < length gs \<Longrightarrow> name (gs ! i) = n \<Longrightarrow> (\<forall>j<i. name (gs ! j) \<noteq> n) \<Longrightarrow> find_goal n gs = Some i"
proof (induction gs arbitrary: i)
  case Nil
  then show ?case by simp
next
  case (Cons g gs)
  show ?case
  proof (cases i)
    case 0
    with Cons.prems show ?thesis by simp
  next
    case (Suc k)
    with Cons.prems have "name g \<noteq> n" by auto
    moreover have "find_goal n gs = Some k"
      using Cons.prems Suc by (intro Cons.IH) auto
    ultimately show ?thesis using Suc by simp
  qed
qed

subsection \<open>The sample runs, evaluated\<close>

lemma strftime_samples:
  "strftime wed_2023_03_08 = ''2023-03-08''"
  "strftime wed_2024_03_06 = ''2024-03-06''"
  by (simp_all add: strftime_def digit_char_def wed_2023_03_08_def wed_2024_03_06_def)

lemma data_fresh: "data (GoalTracker Missing) = empty_store"
  by (simp add: GoalTracker_def load_data_def)

lemma data_run10:
  "data run10 = \<lparr>goals = None,
     active_goals = [\<lparr>name = ''run'', total_target = 10, weekly_target = 5, unit = Some ''km'',
       daily_logs = Some [], missed_days = None, completion_date = None\<rparr>],
     completed_goals = []\<rparr>"
  by (simp add: run10_def add_goal_def save_data_def data_fresh empty_store_def)

lemma data_twins:
  "data twins = \<lparr>goals = None,
     active_goals = [\<lparr>name = ''run'', total_target = 10, weekly_target = 5, unit = Some ''km'',
       daily_logs = Some [], missed_days = None, completion_date = None\<rparr>,
       \<lparr>name = ''read'', total_target = 30, weekly_target = 5, unit = Some ''pages'',
       daily_logs = Some [], missed_days = None, completion_date = None\<rparr>,
       \<lparr>name = ''run'', total_target = 20, weekly_target = 5, unit = Some ''km'',
       daily_logs = Some [], missed_days = None, completion_date = None\<rparr>],
     completed_goals = []\<rparr>"
  by (simp add: twins_def add_goal_def save_data_def data_run10)

lemma disk_twins: "disk twins = Document (dump (data twins))"
  by (simp add: twins_def add_goal_def save_data_def)

lemma data_twins_reloaded:
  "data twins_reloaded = \<lparr>goals = None,
     active_goals = [\<lparr>name = ''run'', total_target = 10, weekly_target = 5, unit = Some ''km'',
       daily_logs = Some [], missed_days = Some [], completion_date = None\<rparr>,
       \<lparr>name = ''read'', total_target = 30, weekly_target = 5, unit = Some ''pages'',
       daily_logs = Some [], missed_days = Some [], completion_date = None\<rparr>,
       \<lparr>name = ''run'', total_target = 20, weekly_target = 5, unit = Some ''km'',
       daily_logs = Some [], missed_days = Some [], completion_date = None\<rparr>],
     completed_goals = []\<rparr>"
  by (simp add: twins_reloaded_def GoalTracker_def disk_twins data_twins dump_def load_data_def
      ensure_fields_def setdefault_def)

lemma data_one_done:
  "data one_done = \<lparr>goals = None,
     active_goals = [\<lparr>name = ''run'', total_target = 10, weekly_target = 5, unit = Some ''km'',
       daily_logs = Some [], missed_days = None, completion_date = None\<rparr>],
     completed_goals = [\<lparr>name = ''walk'', total_target = 5, weekly_target = 5, unit = Some ''km'',
       daily_logs = Some [\<lparr>date = ''2024-03-06'', progress = 7\<rparr>], missed_days = None,
       completion_date = Some ''2024-03-06''\<rparr>]\<rparr>"
proof -
  let ?t = "snd (add_goal ''walk'' 5 5 ''km'' run10)"
  have d: "data ?t = \<lparr>goals = None,
     active_goals = [\<lparr>name = ''run'', total_target = 10, weekly_target = 5, unit = Some ''km'',
       daily_logs = Some [], missed_days = None, completion_date = None\<rparr>,
       \<lparr>name = ''walk'', total_target = 5, weekly_target = 5, unit = Some ''km'',
       daily_logs = Some [], missed_days = None, completion_date = None\<rparr>],
     completed_goals = []\<rparr>"
    by (simp add: add_goal_def save_data_def data_run10)
  have f: "find_goal ''walk'' (active_goals (data ?t)) = Some 1"
    by (simp add: d)
  have l: "daily_logs (active_goals (data ?t) ! 1) = Some []"
    by (simp add: d)
  show ?thesis
    unfolding one_done_def
    by (simp add: log_progress_match(2) [OF f l] d strftime_samples)
qed

text \<open>
  A goal made by \<open>add_goal\<close> has no \<open>missed_days\<close> key: until the file is loaded again,
  \<open>log_missed_day\<close> on it raises \<open>KeyError\<close> and changes nothing.
\<close>

lemma log_missed_day_after_add_raises:
  "log_missed_day wed_2024_03_06 ''run'' ''ill'' run10 = (Inl KeyError, run10)"
proof -
  have f: "find_goal ''run'' (active_goals (data run10)) = Some 0"
    by (simp add: data_run10)
  have l: "missed_days (active_goals (data run10) ! 0) = None"
    by (simp add: data_run10)
  show ?thesis
    by (rule log_missed_day_no_field [OF f l])
qed

subsection \<open>The invariant of the active goals\<close>







subsection \<open>The calendar on the sample dates\<close>

lemma days_before_year_samples:
  "days_before_year 2023 = 738520" "days_before_year 2024 = 738885"
  by (simp_all add: days_before_year_def)

lemma ymd2ord_samples:
  "ymd2ord 2023 (Suc 0) (Suc 0) = 738521" "ymd2ord 2024 (Suc 0) (Suc 0) = 738886"
  "ymd2ord 2023 3 8 = 738587" "ymd2ord 2024 3 6 = 738951" "ymd2ord 2024 3 7 = 738952"
  by (simp_all add: ymd2ord_def days_before_year_samples days_before_month_def
      DAYS_BEFORE_MONTH_def is_leap_def)

lemma isoweek1monday_samples:
  "isoweek1monday 2023 = 738522" "isoweek1monday 2024 = 738886"
  by (simp_all add: isoweek1monday_def ymd2ord_samples)

lemma isocalendar_samples:
  "isocalendar wed_2023_03_08 = (2023, 10, 3)"
  "isocalendar wed_2024_03_06 = (2024, 10, 3)"
  "isocalendar thu_2024_03_07 = (2024, 10, 4)"
  by (simp_all add: isocalendar_def isoweek1monday_samples ymd2ord_samples
      wed_2023_03_08_def wed_2024_03_06_def thu_2024_03_07_def)

lemma strptime_samples:
  "strptime ''2023-03-08'' = Some wed_2023_03_08"
  "strptime ''2024-03-06'' = Some wed_2024_03_06"
  by (simp_all add: strptime_def wed_2023_03_08_def wed_2024_03_06_def valid_date_def
      days_in_month_def DAYS_IN_MONTH_def is_leap_def is_digit_def in_range_def digit_val_def)

lemma data_two_years:
  "data two_years = \<lparr>goals = None,
     active_goals = [\<lparr>name = ''swim'', total_target = 100, weekly_target = 5, unit = Some ''km'',
       daily_logs = Some [\<lparr>date = ''2023-03-08'', progress = 3\<rparr>,
                          \<lparr>date = ''2024-03-06'', progress = 2\<rparr>],
       missed_days = None, completion_date = None\<rparr>],
     completed_goals = []\<rparr>"
proof -
  let ?t0 = "snd (add_goal ''swim'' 100 5 ''km'' (GoalTracker Missing))"
  let ?t1 = "snd (log_progress wed_2023_03_08 ''swim'' 3 ?t0)"
  have d0: "data ?t0 = \<lparr>goals = None,
     active_goals = [\<lparr>name = ''swim'', total_target = 100, weekly_target = 5, unit = Some ''km'',
       daily_logs = Some [], missed_days = None, completion_date = None\<rparr>],
     completed_goals = []\<rparr>"
    by (simp add: add_goal_def save_data_def data_fresh empty_store_def)
  have f0: "find_goal ''swim'' (active_goals (data ?t0)) = Some 0"
    and l0: "daily_logs (active_goals (data ?t0) ! 0) = Some []"
    by (simp_all add: d0)
  have d1: "data ?t1 = \<lparr>goals = None,
     active_goals = [\<lparr>name = ''swim'', total_target = 100, weekly_target = 5, unit = Some ''km'',
       daily_logs = Some [\<lparr>date = ''2023-03-08'', progress = 3\<rparr>],
       missed_days = None, completion_date = None\<rparr>],
     completed_goals = []\<rparr>"
    by (simp add: log_progress_match(2) [OF f0 l0] d0 strftime_samples)
  have f1: "find_goal ''swim'' (active_goals (data ?t1)) = Some 0"
    and l1: "daily_logs (active_goals (data ?t1) ! 0) = Some [\<lparr>date = ''2023-03-08'', progress = 3\<rparr>]"
    by (simp_all add: d1)
  show ?thesis
    unfolding two_years_def
    by (simp add: log_progress_match(2) [OF f1 l1] d1 strftime_samples)
qed

subsection \<open>Saving and loading again\<close>

lemma ensure_fields_id: "has_fields g \<Longrightarrow> ensure_fields g = g"
  by (auto simp: has_fields_def ensure_fields_def setdefault_def)

lemma load_dump_roundtrip:
  assumes "list_all has_fields (active_goals s)"
  shows "load_data (Document (dump s)) = s"
proof -
  from assms have "map ensure_fields (active_goals s) = active_goals s"
    by (simp add: list_all_iff map_idI ensure_fields_id)
  then show ?thesis
    by (simp add: load_data_def dump_def setdefault_def)
qed

lemma disk_run10: "disk run10 = Document (dump (data run10))"
  by (simp add: run10_def add_goal_def save_data_def)

section \<open>The claims\<close>







text \<open>
  C3. For every tracker and every name that no active goal bears, \<open>log_progress\<close> and
  \<open>log_missed_day\<close> both return \<open>False\<close>, raise nothing, and leave the whole tracker
  (both collections, the file, the number of writes) as it was.
\<close>

theorem log_unknown_goal_fails:
  assumes "\<forall>g\<in>set (active_goals (data t)). name g \<noteq> n"
  shows "log_progress now n a t = (Inr False, t) \<and> log_missed_day now n r t = (Inr False, t)"
proof -
  from assms have "find_goal n (active_goals (data t)) = None"
    by (simp add: find_goal_None_iff)
  then show ?thesis
    by (simp add: log_progress_no_match log_missed_day_no_match)
qed

theorem log_unknown_goal_fails_witness:
  "map name (active_goals (data one_done)) = [''run''] \<and>
   map name (completed_goals (data one_done)) = [''walk''] \<and>
   log_progress wed_2024_03_06 ''walk'' 1 one_done = (Inr False, one_done) \<and>
   log_missed_day wed_2024_03_06 ''walk'' ''ill'' one_done = (Inr False, one_done)"
proof -
  have h: "\<forall>g\<in>set (active_goals (data one_done)). name g \<noteq> ''walk''"
    by (simp add: data_one_done)
  show ?thesis
    using log_unknown_goal_fails [OF h, of wed_2024_03_06 1 "''ill''"]
    by (simp add: data_one_done)
qed

text \<open>
  C4. For every tracker and every name, \<open>delete_goal\<close> returns without error, keeps
  exactly the active goals of another name in their order (so every goal of that name
  goes, not only the first), leaves the completed goals alone, and changes neither
  collection when no active goal bears the name.
\<close>

theorem delete_goal_removes_all:
  "fst (delete_goal n t) = Inr () \<and>
   active_goals (data (snd (delete_goal n t))) =
     filter (\<lambda>g. name g \<noteq> n) (active_goals (data t)) \<and>
   n \<notin> name ` set (active_goals (data (snd (delete_goal n t)))) \<and>
   completed_goals (data (snd (delete_goal n t))) = completed_goals (data t) \<and>
   ((\<forall>g\<in>set (active_goals (data t)). name g \<noteq> n) \<longrightarrow>
      data (snd (delete_goal n t)) = data t)"
proof -
  have "(\<forall>g\<in>set gs. name g \<noteq> n) \<longrightarrow> filter (\<lambda>g. name g \<noteq> n) gs = gs" for gs
    by (induction gs) auto
  then show ?thesis
    by (auto simp: delete_goal_def save_data_def)
qed

theorem delete_goal_removes_all_witness:
  "map name (active_goals (data twins)) = [''run'', ''read'', ''run''] \<and>
   map name (active_goals (data (snd (delete_goal ''run'' twins)))) = [''read''] \<and>
   map total_target (active_goals (data (snd (delete_goal ''read'' twins)))) = [10, 20] \<and>
   data (snd (delete_goal ''walk'' twins)) = data twins"
  using delete_goal_removes_all [of "''run''" twins]
    delete_goal_removes_all [of "''read''" twins]
    delete_goal_removes_all [of "''walk''" twins]
  by (simp add: data_twins)

text \<open>
  C5. The query is to add up the entries dated in the ISO calendar week of the
  current date and no entry of another ISO week. The code compares week numbers
  only: the goal of \<open>two_years\<close> was logged on 2023-03-08 (week 10 of 2023) and on
  2024-03-06 (week 10 of 2024), and the query of 2024-03-07 (week 10 of 2024)
  returns \<open>3 + 2\<close>, the entry of the year before included.
\<close>

theorem weekly_progress_counts_week_of_other_year:
  "active_goals (data two_years) =
     [\<lparr>name = ''swim'', total_target = 100, weekly_target = 5, unit = Some ''km'',
       daily_logs = Some [\<lparr>date = ''2023-03-08'', progress = 3\<rparr>,
                          \<lparr>date = ''2024-03-06'', progress = 2\<rparr>],
       missed_days = None, completion_date = None\<rparr>] \<and>
   map_option isocalendar (strptime ''2023-03-08'') = Some (2023, 10, 3) \<and>
   map_option isocalendar (strptime ''2024-03-06'') = Some (2024, 10, 3) \<and>
   isocalendar thu_2024_03_07 = (2024, 10, 4) \<and>
   fst (get_weekly_progress thu_2024_03_07 ''swim'' two_years) = Inr 5"
  by (simp add: data_two_years strptime_samples isocalendar_samples get_weekly_progress_def
      iso_week_def py_sum_def)



text \<open>
  C7. Saving and loading again is to give back the same goals with the same fields.
  The goal that \<open>add_goal\<close> makes has no \<open>missed_days\<close> key; \<open>add_goal\<close> saves it so, and
  \<open>load_data\<close> gives it the key: the store loaded from the file of \<open>run10\<close> is not the
  store \<open>run10\<close> saved.
\<close>

theorem reload_after_add_differs:
  "disk run10 = Document (dump (data run10)) \<and>
   map missed_days (active_goals (data run10)) = [None] \<and>
   map missed_days (active_goals (load_data (disk run10))) = [Some []] \<and>
   load_data (disk run10) \<noteq> data run10"
proof -
  have a: "map missed_days (active_goals (data run10)) = [None]"
    by (simp add: data_run10)
  have b: "map missed_days (active_goals (load_data (disk run10))) = [Some []]"
    by (simp add: disk_run10 data_run10 dump_def load_data_def ensure_fields_def setdefault_def)
  from a b have "load_data (disk run10) \<noteq> data run10"
    by auto
  with a b disk_run10 show ?thesis by simp
qed

text \<open>
  C8. For every tracker and every name that no active goal bears, the name of a
  completed goal included, \<open>get_weekly_progress\<close> returns \<open>0\<close> and raises nothing.
\<close>

theorem weekly_progress_unknown_goal:
  assumes "\<forall>g\<in>set (active_goals (data t)). name g \<noteq> n"
  shows "fst (get_weekly_progress now n t) = Inr 0"
proof -
  from assms have "find_goal n (active_goals (data t)) = None"
    by (simp add: find_goal_None_iff)
  then show ?thesis
    by (simp add: get_weekly_progress_def)
qed

theorem weekly_progress_unknown_goal_witness:
  "map name (completed_goals (data one_done)) = [''walk''] \<and>
   fst (get_weekly_progress wed_2024_03_06 ''walk'' one_done) = Inr 0"
proof -
  have h: "\<forall>g\<in>set (active_goals (data one_done)). name g \<noteq> ''walk''"
    by (simp add: data_one_done)
  show ?thesis
    using weekly_progress_unknown_goal [OF h, of wed_2024_03_06]
    by (simp add: data_one_done)
qed

text \<open>
  C9, as stated: every active goal whose name matches gets the entry. The session
  \<open>twins_reloaded\<close> has two active goals named \<open>run\<close>, both with the empty
  \<open>missed_days\<close> that \<open>load_data\<close> gave them; \<open>log_missed_day\<close> returns \<open>True\<close> and
  appends to the first only.
\<close>

theorem log_missed_day_second_namesake_untouched:
  "map name (active_goals (data twins_reloaded)) = [''run'', ''read'', ''run''] \<and>
   fst (log_missed_day wed_2024_03_06 ''run'' ''ill'' twins_reloaded) = Inr True \<and>
   map missed_days
     (active_goals (data (snd (log_missed_day wed_2024_03_06 ''run'' ''ill'' twins_reloaded)))) =
     [Some [\<lparr>date = ''2024-03-06'', reason = ''ill''\<rparr>], Some [], Some []]"
proof -
  have f: "find_goal ''run'' (active_goals (data twins_reloaded)) = Some 0"
    by (simp add: data_twins_reloaded)
  have l: "missed_days (active_goals (data twins_reloaded) ! 0) = Some []"
    by (simp add: data_twins_reloaded)
  show ?thesis
    by (simp add: log_missed_day_match [OF f l] data_twins_reloaded strftime_samples
        save_data_def)
qed

text \<open>
  C9, amended. For every tracker and every name \<open>n\<close>: if the first active goal named
  \<open>n\<close> is at position \<open>i\<close> and carries the missed days \<open>ms\<close>, then \<open>log_missed_day\<close>
  returns \<open>True\<close> and appends the entry of today with the reason to the missed days of
  that goal, after the earlier entries; every other goal and the completed goals stay
  as they were.
\<close>

theorem log_missed_day_first_match:
  assumes "i < length (active_goals (data t))"
    and "name (active_goals (data t) ! i) = n"
    and "\<forall>j<i. name (active_goals (data t) ! j) \<noteq> n"
    and "missed_days (active_goals (data t) ! i) = Some ms"
  shows "fst (log_missed_day now n r t) = Inr True \<and>
    active_goals (data (snd (log_missed_day now n r t))) =
      (active_goals (data t))
        [i := (active_goals (data t) ! i)
           \<lparr>missed_days := Some (ms @ [\<lparr>date = strftime now, reason = r\<rparr>])\<rparr>] \<and>
    completed_goals (data (snd (log_missed_day now n r t))) = completed_goals (data t)"
proof -
  have f: "find_goal n (active_goals (data t)) = Some i"
    using assms(1-3) by (rule find_goal_first)
  show ?thesis
    by (simp add: log_missed_day_match [OF f assms(4)] save_data_def)
qed

theorem log_missed_day_first_match_witness:
  "missed_days (active_goals (data twins_reloaded) ! 1) = Some [] \<and>
   fst (log_missed_day wed_2024_03_06 ''read'' ''ill'' twins_reloaded) = Inr True \<and>
   map missed_days
     (active_goals (data (snd (log_missed_day wed_2024_03_06 ''read'' ''ill'' twins_reloaded)))) =
     [Some [], Some [\<lparr>date = ''2024-03-06'', reason = ''ill''\<rparr>], Some []]"
  using log_missed_day_first_match [of 1 twins_reloaded "''read''" "[]" wed_2024_03_06 "''ill''"]
  by (simp add: data_twins_reloaded strftime_samples less_Suc_eq_0_disj)

text \<open>
  C10. \<open>get_weekly_progress\<close> only reads: for every tracker, name and clock reading,
  whatever it returns or raises, both collections, the file and the number of writes
  are as before the call.
\<close>

theorem weekly_progress_reads_only:
  "snd (get_weekly_progress now n t) = t \<and>
   active_goals (data (snd (get_weekly_progress now n t))) = active_goals (data t) \<and>
   completed_goals (data (snd (get_weekly_progress now n t))) = completed_goals (data t) \<and>
   disk (snd (get_weekly_progress now n t)) = disk t \<and>
   writes (snd (get_weekly_progress now n t)) = writes t"
  by (simp add: get_weekly_progress_frame)

theorem weekly_progress_reads_only_witness:
  "snd (get_weekly_progress thu_2024_03_07 ''swim'' two_years) = two_years \<and>
   snd (get_weekly_progress thu_2024_03_07 ''walk'' one_done) = one_done"
  using weekly_progress_reads_only [of thu_2024_03_07 "''swim''" two_years]
    weekly_progress_reads_only [of thu_2024_03_07 "''walk''" one_done]
  by simp

end
